theory Spec2Isabelle
  imports Complex_Main
begin

section \<open>JavaScript values\<close>

text \<open>
  The provider response, the result of a client-side \<open>createMessage\<close> call and every node
  visited by \<open>scan\<close> are JSON-like JavaScript values. An object is the list of its own
  enumerable properties in \<open>Object.keys\<close> order (keys are distinct); numbers that occur in
  these payloads are integers. A string is a list of code units below 256.
\<close>

datatype js =
    JUndefined
  | JNull
  | JBool bool
  | JNum int
  | JStr string
  | JArr "js list"
  | JObj "(string \<times> js) list"

text \<open>\<open>!node\<close> is \<open>\<not> truthy node\<close>: undefined, null, false, 0 and the empty string are falsy.\<close>

fun truthy :: "js \<Rightarrow> bool" where
  "truthy JUndefined = False"
| "truthy JNull = False"
| "truthy (JBool b) = b"
| "truthy (JNum n) = (n \<noteq> 0)"
| "truthy (JStr s) = (s \<noteq> [])"
| "truthy (JArr xs) = True"
| "truthy (JObj kvs) = True"

text \<open>
  Property access \<open>v.k\<close> (and \<open>v?.k\<close>): the property of an object, \<open>undefined\<close> when the
  object has no such key or when \<open>v\<close> is a primitive or an array (none of the keys read by the
  program is a property of those). A plain \<open>v.k\<close> on \<open>undefined\<close> or \<open>null\<close> raises a
  TypeError; the one place of the handler where that can happen is written out there.
\<close>

fun js_prop :: "js \<Rightarrow> string \<Rightarrow> js" where
  "js_prop (JObj kvs) k = (case map_of kvs k of None \<Rightarrow> JUndefined | Some v \<Rightarrow> v)"
| "js_prop v k = JUndefined"

fun nullish :: "js \<Rightarrow> bool" where
  "nullish JUndefined = True"
| "nullish JNull = True"
| "nullish v = False"

text \<open>\<open>a ?? b\<close>\<close>

definition nullish_or :: "js \<Rightarrow> js \<Rightarrow> js" where
  "nullish_or a b = (if nullish a then b else a)"

text \<open>
  \<open>String.prototype.trim\<close> removes white space and line terminators at both ends; below
  code unit 256 these are tab, line feed, vertical tab, form feed, carriage return, space and
  the no-break space.
\<close>

definition is_js_whitespace :: "char \<Rightarrow> bool" where
  "is_js_whitespace c =
     (let n = (of_char c :: nat)
      in n = 9 \<or> n = 10 \<or> n = 11 \<or> n = 12 \<or> n = 13 \<or> n = 32 \<or> n = 160)"

definition trim :: "string \<Rightarrow> string" where
  "trim s = rev (dropWhile is_js_whitespace (rev (dropWhile is_js_whitespace s)))"

text \<open>\<open>Array.prototype.join\<close> on an array of strings.\<close>

fun join :: "string \<Rightarrow> string list \<Rightarrow> string" where
  "join sep [] = []"
| "join sep [x] = x"
| "join sep (x # y # ys) = x @ sep @ join sep (y # ys)"

text \<open>Decimal digits of a number, as \<open>Number.prototype.toString\<close> prints an integer.\<close>

fun decimal :: "nat \<Rightarrow> string" where
  "decimal n =
     (if n < 10 then [char_of (48 + n)] else decimal (n div 10) @ [char_of (48 + n mod 10)])"

declare decimal.simps [simp del]

definition number_toString :: "int \<Rightarrow> string" where
  "number_toString n = (if n < 0 then ''-'' @ decimal (nat (- n)) else decimal (nat n))"

text \<open>\<open>String(v)\<close>; an array prints its elements separated by commas, null and undefined
  elements as the empty string.\<close>

fun js_String :: "js \<Rightarrow> string" where
  "js_String JUndefined = ''undefined''"
| "js_String JNull = ''null''"
| "js_String (JBool b) = (if b then ''true'' else ''false'')"
| "js_String (JNum n) = number_toString n"
| "js_String (JStr s) = s"
| "js_String (JArr xs) = join '','' (map (\<lambda>x. if nullish x then [] else js_String x) xs)"
| "js_String (JObj kvs) = ''[object Object]''"

lemma size_map_of: "map_of kvs k = Some v \<Longrightarrow> size v < size (JObj kvs)"
  by (induction kvs) (auto split: if_splits)

lemma size_js_prop_obj: "size (js_prop (JObj kvs) k) < size (JObj kvs)"
  using size_map_of [of kvs k] by (cases "map_of kvs k") auto

lemma size_js_prop_le: "size (js_prop v k) \<le> size v"
  using size_js_prop_obj [of _ k] by (cases v) (auto simp del: js_prop.simps(1) simp: less_imp_le)

lemma size_entry: "(k, v) \<in> set kvs \<Longrightarrow> size v < size (JObj kvs)"
  by (induction kvs) auto

section \<open>The response extractor\<close>

text \<open>
  The keys the generic key loop of \<open>scan\<close> skips.
\<close>

definition skipped_key :: "string \<Rightarrow> bool" where
  "skipped_key k = (k = ''logprobs'' \<or> k = ''tool'' \<or> k = ''annotations'')"

text \<open>
  The closure \<open>scan\<close> of the handler (the deep structural scan). It pushes onto the array
  \<open>texts\<close>; \<open>scan node\<close> is the list of the strings one call \<open>scan(node)\<close> pushes, in push
  order, so that after \<open>scan(a); scan(b)\<close> the array holds \<open>scan a @ scan b\<close>.

  A falsy node returns at once (the empty string included); a string is pushed; an array is
  scanned element by element; an object pushes its \<open>text\<close> when that is a string, pushes it
  again when its \<open>type\<close> is \<open>output_text\<close>, scans \<open>content\<close> when its \<open>role\<close> is
  \<open>assistant\<close>, scans \<open>message.content\<close> when \<open>message.role\<close> is \<open>assistant\<close>, and then scans
  the value of every key but the skipped ones. Other values (true, a non-zero number) push
  nothing.
\<close>

function (sequential) scan :: "js \<Rightarrow> string list" where
  "scan (JStr s) = (if s = [] then [] else [s])"
| "scan (JArr xs) = concat (map scan xs)"
| "scan (JObj kvs) =
     (let node = JObj kvs in
        (case js_prop node ''text'' of JStr t \<Rightarrow> [t] | _ \<Rightarrow> [])
      @ (if js_prop node ''type'' = JStr ''output_text''
         then (case js_prop node ''text'' of JStr t \<Rightarrow> [t] | _ \<Rightarrow> []) else [])
      @ (if js_prop node ''role'' = JStr ''assistant'' \<and> truthy (js_prop node ''content'')
         then scan (js_prop node ''content'') else [])
      @ (if truthy (js_prop node ''message'') \<and> js_prop (js_prop node ''message'') ''role'' = JStr ''assistant''
         then scan (js_prop (js_prop node ''message'') ''content'') else [])
      @ concat (map (\<lambda>(k, v). if skipped_key k then [] else scan v) kvs))"
| "scan v = []"
  by pat_completeness auto
termination
proof (relation "measure size")
  show "wf (measure size)" by simp
next
  fix xs :: "js list" and x assume "x \<in> set xs"
  then show "(x, JArr xs) \<in> measure size"
    by (induction xs) auto
next
  fix kvs node
  assume "node = JObj kvs"
  then show "(js_prop node ''content'', JObj kvs) \<in> measure size"
    using size_js_prop_obj [of kvs "''content''"] by simp
next
  fix kvs node
  assume "node = JObj kvs"
  then show "(js_prop (js_prop node ''message'') ''content'', JObj kvs) \<in> measure size"
    using size_js_prop_le [of "js_prop (JObj kvs) ''message''" "''content''"]
      size_js_prop_obj [of kvs "''message''"] by simp
next
  fix kvs and kv :: "string \<times> js" and k v
  assume "kv \<in> set kvs" "(k, v) = kv"
  then show "(v, JObj kvs) \<in> measure size"
    using size_entry [of k v kvs] by simp
qed

text \<open>
  The text the handler extracts from a provider response \<open>anyResp\<close> that is neither
  \<open>undefined\<close> nor \<open>null\<close>: the trimmed top-level \<open>output_text\<close> when that is a string with
  something left after trimming, and otherwise the fragments of \<open>scan(anyResp.output)\<close> and
  \<open>scan(anyResp.message)\<close> joined by line feeds and trimmed.
\<close>

definition response_text :: "js \<Rightarrow> string" where
  "response_text anyResp =
     (let fallback = trim (join ''\<newline>'' (scan (js_prop anyResp ''output'') @ scan (js_prop anyResp ''message'')))
      in case js_prop anyResp ''output_text'' of
           JStr s \<Rightarrow> if trim s \<noteq> [] then trim s else fallback
         | _ \<Rightarrow> fallback)"

text \<open>
  The strings the deep scan is said to collect: every string value reachable from a node
  through array elements and through object keys other than the skipped ones. This
  definition follows the description of the scan, not its code.
\<close>

fun reachable_strings :: "js \<Rightarrow> string list" where
  "reachable_strings (JStr s) = [s]"
| "reachable_strings (JArr xs) = concat (map reachable_strings xs)"
| "reachable_strings (JObj kvs) =
     concat (map (\<lambda>kv. if skipped_key (fst kv) then [] else reachable_strings (snd kv)) kvs)"
| "reachable_strings v = []"

section \<open>The retry executor\<close>

text \<open>
  A value thrown by the provider call: its \<open>status\<close>, its \<open>response.status\<close>, its \<open>message\<close>
  and what \<open>String(err)\<close> prints.
\<close>

record error =
  err_status :: "int option"
  err_response_status :: "int option"
  err_message :: string
  err_text :: string

text \<open>
  \<open>err?.status || err?.response?.status\<close>; the argument \<open>None\<close> is a thrown \<open>undefined\<close>.
  A status of 0 is falsy, so the right operand is taken.
\<close>

fun status_of :: "error option \<Rightarrow> int option" where
  "status_of None = None"
| "status_of (Some err) =
     (case err_status err of
        Some s \<Rightarrow> if s \<noteq> 0 then Some s else err_response_status err
      | None \<Rightarrow> err_response_status err)"

definition isRetryableStatus :: "int option \<Rightarrow> bool" where
  "isRetryableStatus status =
     (status = Some 429 \<or> (case status of None \<Rightarrow> False | Some s \<Rightarrow> 500 \<le> s \<and> s < 600))"

text \<open>
  Time is explicit: a clock in milliseconds that starts at 0 when \<open>withRetries\<close> is called.
  The operation \<open>fn\<close> is given as what its invocations do: \<open>fn i t\<close> is the time the promise
  of invocation number \<open>i\<close>, started at time \<open>t\<close>, takes to settle, and its outcome (\<open>Inl\<close> a
  rejection, \<open>Inr\<close> a value). \<open>await sleep(ms)\<close> advances the clock by \<open>ms\<close>, the least time
  \<open>setTimeout\<close> waits. The executor records an \<open>Invoke i t\<close> for each call of \<open>fn\<close> and a
  \<open>Sleep t ms\<close> for each call of \<open>sleep\<close>.
\<close>

datatype retry_event = Invoke nat nat | Sleep nat nat

type_synonym 'a operation = "nat \<Rightarrow> nat \<Rightarrow> nat \<times> (error + 'a)"

text \<open>
  The \<open>for\<close> loop of \<open>withRetries\<close> from index \<open>i\<close>, with \<open>lastErr\<close> and the clock as its
  state. The result is what is returned (\<open>Inr\<close>) or thrown (\<open>Inl\<close>; \<open>Inl None\<close> is the
  \<open>throw lastErr\<close> after a loop that never ran), the events, and the clock at the end.
  The branch \<open>i = attempts - 1\<close> is only reached with \<open>i < attempts\<close>, where the subtraction
  on natural numbers is exact.
\<close>

function withRetries_loop ::
  "'a operation \<Rightarrow> nat \<Rightarrow> nat \<Rightarrow> nat \<Rightarrow> error option \<Rightarrow> nat
     \<Rightarrow> (error option + 'a) \<times> retry_event list \<times> nat" where
  "withRetries_loop fn attempts baseDelay i lastErr now =
     (if i < attempts then
        (case fn i now of
           (d, Inr v) \<Rightarrow> (Inr v, [Invoke i now], now + d)
         | (d, Inl err) \<Rightarrow>
             if \<not> isRetryableStatus (status_of (Some err)) \<or> i = attempts - 1
             then (Inl (Some err), [Invoke i now], now + d)
             else
               (let delay = baseDelay * 2 ^ i
                in case withRetries_loop fn attempts baseDelay (i + 1) (Some err) (now + d + delay) of
                     (r, evs, t) \<Rightarrow> (r, Invoke i now # Sleep (now + d) delay # evs, t)))
      else (Inl lastErr, [], now))"
  by pat_completeness auto
termination
  by (relation "measure (\<lambda>(fn, attempts, baseDelay, i, lastErr, now). attempts - i)") auto

declare withRetries_loop.simps [simp del]

definition withRetries ::
  "'a operation \<Rightarrow> nat \<Rightarrow> nat \<Rightarrow> (error option + 'a) \<times> retry_event list \<times> nat" where
  "withRetries fn attempts baseDelay = withRetries_loop fn attempts baseDelay 0 None 0"

text \<open>Observations on a run: how often the operation was invoked, and the sleeps.\<close>

fun invocations :: "retry_event list \<Rightarrow> nat" where
  "invocations [] = 0"
| "invocations (Invoke i t # evs) = Suc (invocations evs)"
| "invocations (Sleep t ms # evs) = invocations evs"

fun sleeps :: "retry_event list \<Rightarrow> nat list" where
  "sleeps [] = []"
| "sleeps (Invoke i t # evs) = sleeps evs"
| "sleeps (Sleep t ms # evs) = ms # sleeps evs"

text \<open>
  The cancellation token of a request fires at one time \<open>fire\<close> (the timeout or the caller's
  abort). \<open>invocations_after\<close> counts the invocations started after that time;
  \<open>fires_during_sleep\<close> says that the time falls into a backoff sleep.
\<close>

fun invocations_after :: "nat \<Rightarrow> retry_event list \<Rightarrow> nat" where
  "invocations_after fire [] = 0"
| "invocations_after fire (Invoke i t # evs) =
     (if fire < t then Suc (invocations_after fire evs) else invocations_after fire evs)"
| "invocations_after fire (Sleep t ms # evs) = invocations_after fire evs"

fun fires_during_sleep :: "nat \<Rightarrow> retry_event list \<Rightarrow> bool" where
  "fires_during_sleep fire [] = False"
| "fires_during_sleep fire (Sleep t ms # evs) =
     ((t \<le> fire \<and> fire < t + ms) \<or> fires_during_sleep fire evs)"
| "fires_during_sleep fire (Invoke i t # evs) = fires_during_sleep fire evs"

text \<open>
  The shape of a run in which every sleep lasts its full \<open>b * 2 ^ i\<close> milliseconds and is
  followed, at its end, by the next invocation.
\<close>

fun backoff_shape :: "nat \<Rightarrow> retry_event list \<Rightarrow> bool" where
  "backoff_shape b [] = True"
| "backoff_shape b [Invoke i t] = True"
| "backoff_shape b (Invoke i t # Sleep s ms # Invoke j u # evs) =
     (ms = b * 2 ^ i \<and> j = i + 1 \<and> u = s + ms \<and> backoff_shape b (Invoke j u # evs))"
| "backoff_shape b evs = False"

text \<open>
  An operation that honours a token firing at \<open>fire\<close>: an invocation that settles at or after
  that time is rejected with an error that is not retryable (an aborted call has no status).
\<close>

definition fails_once_fired :: "nat \<Rightarrow> 'a operation \<Rightarrow> bool" where
  "fails_once_fired fire fn =
     (\<forall>i t. fire \<le> t + fst (fn i t) \<longrightarrow>
        (case snd (fn i t) of
           Inl e \<Rightarrow> \<not> isRetryableStatus (status_of (Some e))
         | Inr v \<Rightarrow> False))"

section \<open>The request handler\<close>

text \<open>
  Process-wide configuration, read once: the constants \<open>DEFAULT_MODEL\<close>, \<open>MAX_TOKENS_CAP\<close>
  and \<open>SAMPLING_MODE\<close> (already in lower case) and the environment variable
  \<open>OPENAI_API_KEY\<close> (\<open>None\<close> when unset).
\<close>

record config =
  DEFAULT_MODEL :: string
  MAX_TOKENS_CAP :: int
  SAMPLING_MODE :: string
  OPENAI_API_KEY :: "string option"

definition DEFAULT_TIMEOUT_MS :: int where "DEFAULT_TIMEOUT_MS = 120000"

definition DEFAULT_MAX_TOKENS :: int where "DEFAULT_MAX_TOKENS = 1024"

text \<open>
  The arguments of a tool call as \<open>askSchema\<close> types them; an absent optional field is
  \<open>None\<close>. \<open>askSchema_ok\<close> holds when \<open>askSchema.parse\<close> returns: the question has at least
  5 code units, every section is one of the five names, \<open>maxOutputTokens\<close> and \<open>timeoutMs\<close>
  are positive, the temperature lies between 0 and 2. Otherwise \<open>parse\<close> throws.
\<close>

record ask_args =
  question :: string
  context_arg :: "string option"
  sections :: "string list option"
  model :: "string option"
  maxOutputTokens :: "int option"
  timeoutMs :: "int option"
  temperature :: "real option"

definition section_names :: "string list" where
  "section_names = [''summary'', ''findings'', ''plan'', ''risks'', ''verification'']"

definition askSchema_ok :: "ask_args \<Rightarrow> bool" where
  "askSchema_ok a =
     (5 \<le> length (question a)
      \<and> (case sections a of None \<Rightarrow> True | Some ss \<Rightarrow> list_all (\<lambda>s. List.member section_names s) ss)
      \<and> (case maxOutputTokens a of None \<Rightarrow> True | Some n \<Rightarrow> 0 < n)
      \<and> (case timeoutMs a of None \<Rightarrow> True | Some n \<Rightarrow> 0 < n)
      \<and> (case temperature a of None \<Rightarrow> True | Some t \<Rightarrow> 0 \<le> t \<and> t \<le> 2))"

text \<open>The defaults of the destructuring assignment.\<close>

definition arg_model :: "config \<Rightarrow> ask_args \<Rightarrow> string" where
  "arg_model cfg a = (case model a of None \<Rightarrow> DEFAULT_MODEL cfg | Some m \<Rightarrow> m)"

definition arg_sections :: "ask_args \<Rightarrow> string list" where
  "arg_sections a = (case sections a of None \<Rightarrow> [''summary'', ''findings'', ''plan''] | Some ss \<Rightarrow> ss)"

definition arg_maxOutputTokens :: "ask_args \<Rightarrow> int" where
  "arg_maxOutputTokens a = (case maxOutputTokens a of None \<Rightarrow> DEFAULT_MAX_TOKENS | Some n \<Rightarrow> n)"

definition arg_timeoutMs :: "ask_args \<Rightarrow> int" where
  "arg_timeoutMs a = (case timeoutMs a of None \<Rightarrow> DEFAULT_TIMEOUT_MS | Some n \<Rightarrow> n)"

text \<open>
  \<open>toUpperCase\<close> on the section names, which are lower-case ASCII once validated.
\<close>

definition toUpperCase :: "string \<Rightarrow> string" where
  "toUpperCase s =
     map (\<lambda>c. let n = (of_char c :: nat) in if 97 \<le> n \<and> n \<le> 122 then char_of (n - 32) else c) s"

definition buildSectionsHeader :: "string list \<Rightarrow> string" where
  "buildSectionsHeader ss = join '', '' (map toUpperCase ss)"

definition system_prompt :: "string list \<Rightarrow> string" where
  "system_prompt ss =
     ''You are a senior principal engineer ('' @ [CHR 0x22] @ ''oracle'' @ [CHR 0x22]
     @ '').\<newline>Return guidance in plain text with clearly delineated sections: ''
     @ buildSectionsHeader ss
     @ ''.\<newline>Keep it concise and actionable. Provide commands in Verification.''"

definition user_prompt :: "string \<Rightarrow> string option \<Rightarrow> string" where
  "user_prompt q c =
     q @ (case c of None \<Rightarrow> []
          | Some t \<Rightarrow> if t \<noteq> [] then ''\<newline>\<newline>Additional context:\<newline>'' @ t else [])"

text \<open>\<open>safeMaxTokens = Math.min(Math.max(1, maxOutputTokens), MAX_TOKENS_CAP)\<close>\<close>

definition safeMaxTokens :: "config \<Rightarrow> ask_args \<Rightarrow> int" where
  "safeMaxTokens cfg a = min (max 1 (arg_maxOutputTokens a)) (MAX_TOKENS_CAP cfg)"

text \<open>\<open>apiKey = rawKey?.trim()\<close>, and \<open>!apiKey\<close> (also \<open>!sampled\<close>) on an optional string.\<close>

definition apiKey :: "config \<Rightarrow> string option" where
  "apiKey cfg = map_option trim (OPENAI_API_KEY cfg)"

definition falsy :: "string option \<Rightarrow> bool" where
  "falsy k = (case k of None \<Rightarrow> True | Some s \<Rightarrow> s = [])"

text \<open>
  The payload of a client-side sampling call (its \<open>max_tokens\<close>, \<open>systemPrompt\<close> and
  \<open>system_prompt\<close> repeat \<open>maxTokens\<close> and the system text), and the request sent to the
  provider (\<open>reasoning: { effort }\<close> and \<open>temperature\<close> are optional fields).
\<close>

record sampling_params =
  p_system :: string
  p_user :: string
  p_maxTokens :: int
  p_temperature :: "real option"
  p_model :: string

record responses_req =
  r_model :: string
  r_reasoning_effort :: "string option"
  r_input :: "(string \<times> string) list"
  r_max_output_tokens :: int
  r_temperature :: "real option"

text \<open>
  The provider client: \<open>cl req\<close> is the operation \<open>() => client.responses.create(req,
  { signal })\<close>, given by what its invocations do. The client is the one
  \<open>getOpenAI(apiKey, baseURL, organization)\<close> hands out.
\<close>

type_synonym client = "responses_req \<Rightarrow> js operation"

text \<open>
  \<open>getOpenAI\<close> looks the client up in its memo table and otherwise calls the constructor
  \<open>new OpenAI({ apiKey, baseURL, organization })\<close> of the client library. The library is
  not part of the repository; as it is written, the constructor throws an \<open>OpenAIError\<close>
  when \<open>apiKey\<close> is \<open>undefined\<close> and the environment variable \<open>OPENAI_API_KEY\<close> is unset, and
  accepts every string, the empty one included. The handler passes the trimmed variable
  itself, and the environment does not change while the process runs, so the memo table
  never holds a client for an unset key: \<open>getOpenAI\<close> throws exactly when the key is unset.
\<close>

definition getOpenAI_throws :: "string option \<Rightarrow> bool" where
  "getOpenAI_throws k = (k = None)"

text \<open>
  The caller context: the three probed \<open>createMessage\<close> entry points (\<open>Some f\<close> when the
  entry point is a function; \<open>f\<close> returns \<open>Inl ()\<close> when the call throws or rejects) and
  whether \<open>ctx.signal\<close> accepts an abort listener. \<open>sendInfo\<close> and \<open>reportProgress\<close> never
  affect the request; their calls are recorded as events. Console logging is left out. The
  abort of the controller, by the timer or by the listener, acts on the request only through
  the signal handed to the client, that is through what the invocations of \<open>cl req\<close> do.
\<close>

record ctx =
  sampling_createMessage :: "(sampling_params \<Rightarrow> unit + js) option"
  session_createMessage :: "(sampling_params \<Rightarrow> unit + js) option"
  createMessage :: "(sampling_params \<Rightarrow> unit + js) option"
  signal :: bool

datatype event =
    SendInfo string
  | ReportProgress nat
  | CreateMessage sampling_params
  | AddAbortListener
  | RemoveAbortListener
  | SetTimeout int
  | ClearTimeout
  | ResponsesCreate responses_req nat nat
  | BackoffSleep nat nat

text \<open>A tool result \<open>{ isError, content: [{ type: "text", text }] }\<close>.\<close>

record tool_result =
  isError :: bool
  content_text :: string

datatype outcome = Returned tool_result | ThrewZodError | ThrewOpenAIError

definition mcpErr :: "string \<Rightarrow> string \<Rightarrow> tool_result" where
  "mcpErr text code = \<lparr>isError = True, content_text = code @ '': '' @ text\<rparr>"

definition mcpOk :: "string \<Rightarrow> tool_result" where
  "mcpOk text = \<lparr>isError = False, content_text = text\<rparr>"

text \<open>The inner function \<open>extract\<close> of \<open>tryClientSampling\<close>.\<close>

function (sequential) sampling_extract :: "js \<Rightarrow> string" where
  "sampling_extract (JStr s) = s"
| "sampling_extract (JArr xs) =
     join ''\<newline>'' (filter (\<lambda>s. s \<noteq> []) (map sampling_extract xs))"
| "sampling_extract (JObj kvs) =
     (let node = JObj kvs in
        if truthy (js_prop node ''text'') then js_String (js_prop node ''text'')
        else if js_prop node ''type'' = JStr ''text'' \<and> truthy (js_prop node ''text'')
          then js_String (js_prop node ''text'')
        else if truthy (js_prop node ''content'') then sampling_extract (js_prop node ''content'')
        else [])"
| "sampling_extract v = []"
  by pat_completeness auto
termination
proof (relation "measure size")
  show "wf (measure size)" by simp
next
  fix xs :: "js list" and x assume "x \<in> set xs"
  then show "(x, JArr xs) \<in> measure size"
    by (induction xs) auto
next
  fix kvs node
  assume "node = JObj kvs"
  then show "(js_prop node ''content'', JObj kvs) \<in> measure size"
    using size_js_prop_obj [of kvs "''content''"] by simp
qed

text \<open>
  \<open>tryClientSampling\<close>: the first entry point that exists is called; no entry point, a
  throwing call and an empty text all give \<open>null\<close> (\<open>None\<close>).
\<close>

definition tryClientSampling :: "ctx \<Rightarrow> sampling_params \<Rightarrow> string option \<times> event list" where
  "tryClientSampling c params =
     (case (case sampling_createMessage c of Some f \<Rightarrow> Some f
            | None \<Rightarrow> (case session_createMessage c of Some f \<Rightarrow> Some f
                       | None \<Rightarrow> createMessage c)) of
        None \<Rightarrow> (None, [])
      | Some f \<Rightarrow>
          (case f params of
             Inl _ \<Rightarrow> (None, [CreateMessage params])
           | Inr result \<Rightarrow>
               (let content = nullish_or (nullish_or (js_prop result ''content'')
                                 (js_prop (js_prop result ''message'') ''content''))
                               (js_prop result ''output'');
                    text = trim (sampling_extract content)
                in (if text = [] then None else Some text, [CreateMessage params]))))"

definition sampling_args :: "config \<Rightarrow> ask_args \<Rightarrow> sampling_params" where
  "sampling_args cfg a =
     \<lparr>p_system = system_prompt (arg_sections a),
      p_user = user_prompt (question a) (context_arg a),
      p_maxTokens = safeMaxTokens cfg a,
      p_temperature = temperature a,
      p_model = arg_model cfg a\<rparr>"

text \<open>The test \<open>/^o3($|[-/])/\<close> on the model name.\<close>

definition isReasoningModel :: "string \<Rightarrow> bool" where
  "isReasoningModel m =
     (case m of
        c1 # c2 # rest \<Rightarrow>
          c1 = CHR ''o'' \<and> c2 = CHR ''3'' \<and>
          (case rest of [] \<Rightarrow> True | c # _ \<Rightarrow> c = CHR ''-'' \<or> c = CHR ''/'')
      | _ \<Rightarrow> False)"

text \<open>The object \<open>req\<close>, with the temperature assigned afterwards.\<close>

definition build_req ::
  "string \<Rightarrow> string \<Rightarrow> string \<Rightarrow> int \<Rightarrow> real option \<Rightarrow> responses_req" where
  "build_req m system user maxTokens temp =
     \<lparr>r_model = m,
      r_reasoning_effort = (if isReasoningModel m then Some ''medium'' else None),
      r_input = [(''system'', system), (''user'', user)],
      r_max_output_tokens = maxTokens,
      r_temperature = (if \<not> isReasoningModel m then temp else None)\<rparr>"

definition request_of :: "config \<Rightarrow> ask_args \<Rightarrow> responses_req" where
  "request_of cfg a =
     build_req (arg_model cfg a) (system_prompt (arg_sections a))
       (user_prompt (question a) (context_arg a)) (safeMaxTokens cfg a) (temperature a)"

text \<open>
  The TypeError of \<open>anyResp.output_text\<close> on a response that is \<open>undefined\<close> or \<open>null\<close>.
\<close>

definition TypeError_output_text :: "js \<Rightarrow> error" where
  "TypeError_output_text v =
     \<lparr>err_status = None, err_response_status = None,
      err_message = ''Cannot read properties of '' @ js_String v @ '' (reading 'output_text')'',
      err_text = ''TypeError: Cannot read properties of '' @ js_String v @ '' (reading 'output_text')''\<rparr>"

text \<open>The \<open>catch (err)\<close> block of the provider path.\<close>

definition on_catch :: "error option \<Rightarrow> tool_result \<times> event list" where
  "on_catch err =
     (let status = status_of err;
          has_status = (case status of None \<Rightarrow> False | Some s \<Rightarrow> s \<noteq> 0);
          shown = (case err of None \<Rightarrow> ''undefined''
                   | Some e \<Rightarrow> if err_message e \<noteq> [] then err_message e else err_text e);
          msg = ''OpenAI error''
                @ (if has_status then '' (status '' @ number_toString (the status) @ '')'' else [])
                @ '': '' @ shown
      in (mcpErr msg (if has_status then ''E_OPENAI_HTTP_'' @ number_toString (the status)
                      else ''E_OPENAI_ERROR''),
          [SendInfo (''Error: '' @ msg), ReportProgress 100]))"

fun lift_retry :: "responses_req \<Rightarrow> retry_event \<Rightarrow> event" where
  "lift_retry req (Invoke i t) = ResponsesCreate req i t"
| "lift_retry req (Sleep t ms) = BackoffSleep t ms"

text \<open>
  The \<open>try\<close> block with its \<open>catch\<close>: build the request, report progress 10, run the call
  under \<open>withRetries(..., 3, 500)\<close>, report progress 90 and the latency, extract the text.
\<close>

definition provider_try ::
  "client \<Rightarrow> string \<Rightarrow> string \<Rightarrow> string \<Rightarrow> int \<Rightarrow> real option \<Rightarrow> tool_result \<times> event list" where
  "provider_try cl m system user maxTokens temp =
     (let req = build_req m system user maxTokens temp
      in case withRetries (cl req) 3 500 of
           (r, revs, ms) \<Rightarrow>
             (let evs = ReportProgress 10 # map (lift_retry req) revs
              in case r of
                   Inl err \<Rightarrow> (case on_catch err of (res, cevs) \<Rightarrow> (res, evs @ cevs))
                 | Inr response \<Rightarrow>
                     (let evs' = evs @ [ReportProgress 90,
                                        SendInfo (''Completed in '' @ decimal ms @ '' ms'')]
                      in if nullish response
                         then (case on_catch (Some (TypeError_output_text response)) of
                                 (res, cevs) \<Rightarrow> (res, evs' @ cevs))
                         else
                           (let text = response_text response
                            in if text = []
                               then (mcpErr ''Model returned no text content'' ''E_EMPTY_MODEL_OUTPUT'',
                                     evs' @ [ReportProgress 100,
                                             SendInfo ''Error: Model returned no text content''])
                               else (mcpOk text, evs' @ [ReportProgress 100])))))"

text \<open>
  The provider path, from \<open>new AbortController()\<close> on: the abort listener is added when the
  context has a signal, the timeout timer is armed, the credential is checked, and only then
  comes the \<open>try\<close> whose \<open>finally\<close> clears the timer and removes the listener.
\<close>

definition provider_path :: "config \<Rightarrow> ctx \<Rightarrow> client \<Rightarrow> ask_args \<Rightarrow> outcome \<times> event list" where
  "provider_path cfg c cl a =
     (let setup = (if signal c then [AddAbortListener] else []) @ [SetTimeout (arg_timeoutMs a)]
      in if falsy (apiKey cfg)
         then (let msg = ''Missing OPENAI_API_KEY in environment (required for server-side generation)''
               in (Returned (mcpErr msg ''E_MISSING_OPENAI_KEY''),
                   setup @ [SendInfo (''Error: '' @ msg), ReportProgress 100]))
         else (case provider_try cl (arg_model cfg a) (system_prompt (arg_sections a))
                      (user_prompt (question a) (context_arg a)) (safeMaxTokens cfg a) (temperature a) of
                 (res, evs) \<Rightarrow>
                   (Returned res,
                    setup @ evs @ [ClearTimeout] @ (if signal c then [RemoveAbortListener] else []))))"

text \<open>
  The callback \<open>registerOracleTool\<close> registers: what it returns or throws, and the events
  of the request in order. The arguments are parsed, the start of the request is reported,
  and the client is fetched with \<open>getOpenAI\<close>, outside any \<open>try\<close>, before the sampling mode
  and the credential are looked at.
\<close>

definition handler :: "config \<Rightarrow> ctx \<Rightarrow> client \<Rightarrow> ask_args \<Rightarrow> outcome \<times> event list" where
  "handler cfg c cl rawArgs =
     (if \<not> askSchema_ok rawArgs then (ThrewZodError, [])
      else
        (let start = [SendInfo (''Starting oracle request (model='' @ arg_model cfg rawArgs @ '')''),
                      ReportProgress 0]
         in if getOpenAI_throws (apiKey cfg) then (ThrewOpenAIError, start)
            else
            case (if SAMPLING_MODE cfg \<noteq> ''off''
                  then tryClientSampling c (sampling_args cfg rawArgs) else (None, [])) of
              (sampled, sevs) \<Rightarrow>
                if SAMPLING_MODE cfg \<noteq> ''off'' \<and> \<not> falsy sampled
                then (Returned (mcpOk (the sampled)),
                      start @ sevs @ [ReportProgress 100, SendInfo ''Used client-side sampling''])
                else if SAMPLING_MODE cfg \<noteq> ''off'' \<and> SAMPLING_MODE cfg = ''always''
                then (let msg = ''Client sampling requested but not available''
                      in (Returned (mcpErr msg ''E_CLIENT_SAMPLING_UNAVAILABLE''),
                          start @ sevs @ [SendInfo (''Error: '' @ msg), ReportProgress 100]))
                else (case provider_path cfg c cl rawArgs of
                        (out, pevs) \<Rightarrow> (out, start @ sevs @ pevs))))"

text \<open>
  Control reaches the provider path when the client could be fetched (the key is set, be it
  blank) and the mode is \<open>off\<close>, or client-side sampling gave nothing and the mode is not
  \<open>always\<close>.
\<close>

definition reaches_provider_path :: "config \<Rightarrow> ctx \<Rightarrow> ask_args \<Rightarrow> bool" where
  "reaches_provider_path cfg c a =
     (OPENAI_API_KEY cfg \<noteq> None
      \<and> (SAMPLING_MODE cfg = ''off''
         \<or> (SAMPLING_MODE cfg \<noteq> ''always''
            \<and> falsy (fst (tryClientSampling c (sampling_args cfg a))))))"

text \<open>
  Observations on the events of a request: the requests sent to the provider, whether the
  timeout timer is still armed at the end, and whether the abort listener is still
  registered (the second argument is the state before the events).
\<close>

fun outbound :: "event list \<Rightarrow> responses_req list" where
  "outbound [] = []"
| "outbound (ResponsesCreate req i t # evs) = req # outbound evs"
| "outbound (e # evs) = outbound evs"

fun timer_pending :: "event list \<Rightarrow> bool \<Rightarrow> bool" where
  "timer_pending [] p = p"
| "timer_pending (SetTimeout ms # evs) p = timer_pending evs True"
| "timer_pending (ClearTimeout # evs) p = timer_pending evs False"
| "timer_pending (e # evs) p = timer_pending evs p"

fun listener_registered :: "event list \<Rightarrow> bool \<Rightarrow> bool" where
  "listener_registered [] p = p"
| "listener_registered (AddAbortListener # evs) p = listener_registered evs True"
| "listener_registered (RemoveAbortListener # evs) p = listener_registered evs False"
| "listener_registered (e # evs) p = listener_registered evs p"

section \<open>Sample inputs\<close>

definition err_with_status :: "int option \<Rightarrow> error" where
  "err_with_status st =
     \<lparr>err_status = st, err_response_status = None,
      err_message = ''request failed'', err_text = ''Error: request failed''\<rparr>"

definition abort_error :: error where
  "abort_error =
     \<lparr>err_status = None, err_response_status = None,
      err_message = ''Request was aborted.'', err_text = ''Error: Request was aborted.''\<rparr>"

text \<open>
  An operation under a token that fires at \<open>fire\<close>: a call takes 100 ms; the first is
  answered with status 429, later ones succeed; a call still in flight at \<open>fire\<close>, or started
  later, is rejected at once with an abort error.
\<close>

definition aborting_op :: "nat \<Rightarrow> string operation" where
  "aborting_op fire i t =
     (if fire \<le> t + 100 then (fire - t, Inl abort_error)
      else if i = 0 then (100, Inl (err_with_status (Some 429)))
      else (100, Inr ''ok''))"

definition flat_response :: js where
  "flat_response = JObj [(''output_text'', JStr ''hello'')]"

definition typed_node :: "(string \<times> js) list" where
  "typed_node = [(''type'', JStr ''output_text''), (''text'', JStr ''hi'')]"

definition assistant_node :: "(string \<times> js) list" where
  "assistant_node = [(''role'', JStr ''assistant''), (''content'', JArr [JObj typed_node])]"

definition nested_response :: js where
  "nested_response = JObj [(''output'', JArr [JObj assistant_node])]"

definition sample_config :: config where
  "sample_config =
     \<lparr>DEFAULT_MODEL = ''o3'', MAX_TOKENS_CAP = 4096, SAMPLING_MODE = ''auto'',
      OPENAI_API_KEY = Some ''sk-test''\<rparr>"

definition bare_ctx :: ctx where
  "bare_ctx =
     \<lparr>sampling_createMessage = None, session_createMessage = None, createMessage = None,
      signal = True\<rparr>"

definition sample_args :: ask_args where
  "sample_args =
     \<lparr>question = ''How do I shard this table?'', context_arg = None, sections = None,
      model = None, maxOutputTokens = Some 100000, timeoutMs = None, temperature = Some 0.3\<rparr>"

definition hello_client :: client where
  "hello_client req i t = (120, Inr flat_response)"

section \<open>Properties of the response extractor\<close>

lemma scan_obj:
  "scan (JObj kvs) =
     (case js_prop (JObj kvs) ''text'' of JStr t \<Rightarrow> [t] | _ \<Rightarrow> [])
   @ (if js_prop (JObj kvs) ''type'' = JStr ''output_text''
      then (case js_prop (JObj kvs) ''text'' of JStr t \<Rightarrow> [t] | _ \<Rightarrow> []) else [])
   @ (if js_prop (JObj kvs) ''role'' = JStr ''assistant'' \<and> truthy (js_prop (JObj kvs) ''content'')
      then scan (js_prop (JObj kvs) ''content'') else [])
   @ (if truthy (js_prop (JObj kvs) ''message'')
         \<and> js_prop (js_prop (JObj kvs) ''message'') ''role'' = JStr ''assistant''
      then scan (js_prop (js_prop (JObj kvs) ''message'') ''content'') else [])
   @ concat (map (\<lambda>(k, v). if skipped_key k then [] else scan v) kvs)"
  by (subst scan.simps(3), unfold Let_def, rule refl)

lemma scan_nested:
  "scan (js_prop nested_response ''output'') =
     [''hi'', ''hi'', ''output_text'', ''hi'', ''assistant'', ''hi'', ''hi'', ''output_text'', ''hi'']"
  by (simp add: nested_response_def assistant_node_def typed_node_def skipped_key_def)

text \<open>
  Claim C1. For the response \<open>{ output_text: "hello" }\<close> the extracted text is \<open>hello\<close>.
  For \<open>{ output: [{ role: "assistant", content: [{ type: "output_text", text: "hi" }] }] }\<close>
  the claim expects \<open>hi\<close>; the code returns nine lines instead: the text is pushed by the
  \<open>text\<close> check, by the \<open>output_text\<close> check and by the key loop, the key loop also pushes
  the \<open>type\<close> and \<open>role\<close> tags, and \<open>content\<close> is scanned once for the role and once by the
  key loop.
\<close>

theorem response_text_samples:
  "response_text flat_response = ''hello''
   \<and> response_text nested_response =
       ''hi\<newline>hi\<newline>output_text\<newline>hi\<newline>assistant\<newline>hi\<newline>hi\<newline>output_text\<newline>hi''"
  by (simp add: response_text_def flat_response_def nested_response_def assistant_node_def
      typed_node_def trim_def is_js_whitespace_def skipped_key_def)

lemma count_list_concat_map_ge:
  assumes "x \<in> set xs"
  shows "count_list (f x) a \<le> count_list (concat (map f xs)) a"
  using assms by (induction xs) auto

lemma in_scan_entries:
  "s \<in> set (concat (map (\<lambda>(k, v). if skipped_key k then [] else f v) kvs))
   \<longleftrightarrow> (\<exists>k v. (k, v) \<in> set kvs \<and> \<not> skipped_key k \<and> s \<in> set (f v))"
  by (induction kvs) (auto split: if_splits)

lemma in_reachable_entries:
  "s \<in> set (reachable_strings (JObj kvs))
   \<longleftrightarrow> (\<exists>k v. (k, v) \<in> set kvs \<and> \<not> skipped_key k \<and> s \<in> set (reachable_strings v))"
proof -
  have "s \<in> set (reachable_strings (JObj kvs))
        \<longleftrightarrow> (\<exists>kv \<in> set kvs. \<not> skipped_key (fst kv) \<and> s \<in> set (reachable_strings (snd kv)))"
    by (auto split: if_splits)
  then show ?thesis by force
qed

lemma reachable_subset_scan:
  "set (filter (\<lambda>s. s \<noteq> []) (reachable_strings node)) \<subseteq> set (scan node)"
proof (induction node rule: scan.induct)
  case (1 s)
  then show ?case by simp
next
  case (2 xs)
  then show ?case by (auto simp: filter_concat)
next
  case (3 kvs)
  show ?case
  proof
    fix s assume "s \<in> set (filter (\<lambda>s. s \<noteq> []) (reachable_strings (JObj kvs)))"
    then have ne: "s \<noteq> []" and "s \<in> set (reachable_strings (JObj kvs))" by simp_all
    then obtain k v where kv: "(k, v) \<in> set kvs" "\<not> skipped_key k" "s \<in> set (reachable_strings v)"
      unfolding in_reachable_entries by blast
    have "set (filter (\<lambda>s. s \<noteq> []) (reachable_strings v)) \<subseteq> set (scan v)"
      using "3.IH"(3) [OF refl kv(1) refl kv(2)] .
    with kv(3) ne have "s \<in> set (scan v)" by auto
    with kv(1,2) have "s \<in> set (concat (map (\<lambda>(k, v). if skipped_key k then [] else scan v) kvs))"
      unfolding in_scan_entries by blast
    then show "s \<in> set (scan (JObj kvs))"
      by (subst scan_obj) (simp only: set_append Un_iff, blast)
  qed
qed simp_all

lemma scan_empty_string: "scan (JStr []) = []"
  by simp

lemma response_text_nested:
  "response_text nested_response =
     ''hi\<newline>hi\<newline>output_text\<newline>hi\<newline>assistant\<newline>hi\<newline>hi\<newline>output_text\<newline>hi''"
  by (simp add: response_text_def nested_response_def assistant_node_def typed_node_def trim_def
      is_js_whitespace_def skipped_key_def)

lemma typed_text_twice:
  assumes "js_prop (JObj kvs) ''type'' = JStr ''output_text''" and "js_prop (JObj kvs) ''text'' = JStr t"
  shows "2 \<le> count_list (scan (JObj kvs)) t"
  by (subst scan_obj) (simp add: assms del: js_prop.simps scan.simps)

lemma assistant_content_twice:
  assumes "js_prop (JObj kvs) ''role'' = JStr ''assistant''" and "truthy (js_prop (JObj kvs) ''content'')"
  shows "2 * count_list (scan (js_prop (JObj kvs) ''content'')) f \<le> count_list (scan (JObj kvs)) f"
proof -
  obtain c where c: "map_of kvs ''content'' = Some c"
    using assms(2) by (cases "map_of kvs ''content''") auto
  then have "(''content'', c) \<in> set kvs" by (rule map_of_SomeD)
  from count_list_concat_map_ge [OF this, of "\<lambda>(k, v). if skipped_key k then [] else scan v" f]
  have "count_list (scan c) f
        \<le> count_list (concat (map (\<lambda>(k, v). if skipped_key k then [] else scan v) kvs)) f"
    by (simp add: skipped_key_def)
  moreover have "js_prop (JObj kvs) ''content'' = c" using c by simp
  ultimately have loop: "count_list (scan (js_prop (JObj kvs) ''content'')) f
        \<le> count_list (concat (map (\<lambda>(k, v). if skipped_key k then [] else scan v) kvs)) f"
    by (simp only:)
  have "count_list (scan (JObj kvs)) f
        \<ge> count_list (scan (js_prop (JObj kvs) ''content'')) f
          + count_list (concat (map (\<lambda>(k, v). if skipped_key k then [] else scan v) kvs)) f"
    by (subst scan_obj) (simp only: assms simp_thms if_True count_list_append)
  with loop show ?thesis by arith
qed

text \<open>
  Claim C10, as the code has it. Every non-empty string value reachable from a node given to
  \<open>scan\<close> (the handler gives it \<open>anyResp.output\<close> and \<open>anyResp.message\<close>) through array
  elements and object keys other than \<open>logprobs\<close>, \<open>tool\<close> and \<open>annotations\<close> is collected,
  role values and type tags included; a call of \<open>scan\<close> on an empty string pushes nothing.
  An object whose \<open>type\<close> is \<open>output_text\<close>
  and whose \<open>text\<close> is a string contributes that text at least twice. An object whose
  \<open>role\<close> is \<open>assistant\<close> and whose \<open>content\<close> is truthy contributes every fragment of its
  content at least twice. For the nested sample response the fragments, and with them the
  extracted text, are duplicated and contain the tags \<open>output_text\<close> and \<open>assistant\<close>.
\<close>

theorem scan_collects_reachable_strings:
  "set (filter (\<lambda>s. s \<noteq> []) (reachable_strings node)) \<subseteq> set (scan node)
   \<and> scan (JStr []) = []
   \<and> (js_prop (JObj kvs) ''type'' = JStr ''output_text'' \<and> js_prop (JObj kvs) ''text'' = JStr t
        \<longrightarrow> 2 \<le> count_list (scan (JObj kvs)) t)
   \<and> (js_prop (JObj kvs') ''role'' = JStr ''assistant'' \<and> truthy (js_prop (JObj kvs') ''content'')
        \<longrightarrow> 2 * count_list (scan (js_prop (JObj kvs') ''content'')) f \<le> count_list (scan (JObj kvs')) f)
   \<and> scan (js_prop nested_response ''output'') =
        [''hi'', ''hi'', ''output_text'', ''hi'', ''assistant'', ''hi'', ''hi'', ''output_text'', ''hi'']
   \<and> response_text nested_response =
        ''hi\<newline>hi\<newline>output_text\<newline>hi\<newline>assistant\<newline>hi\<newline>hi\<newline>output_text\<newline>hi''"
  using reachable_subset_scan typed_text_twice assistant_content_twice scan_nested
    scan_empty_string response_text_nested
  by blast

theorem scan_collects_reachable_strings_witness:
  "set (filter (\<lambda>s. s \<noteq> []) (reachable_strings (JObj assistant_node))) \<subseteq> set (scan (JObj assistant_node))
   \<and> reachable_strings (JObj assistant_node) = [''assistant'', ''output_text'', ''hi'']
   \<and> js_prop (JObj typed_node) ''type'' = JStr ''output_text''
   \<and> js_prop (JObj typed_node) ''text'' = JStr ''hi''
   \<and> 2 \<le> count_list (scan (JObj typed_node)) ''hi''
   \<and> js_prop (JObj assistant_node) ''role'' = JStr ''assistant''
   \<and> truthy (js_prop (JObj assistant_node) ''content'')
   \<and> 2 * count_list (scan (js_prop (JObj assistant_node) ''content'')) ''hi''
       \<le> count_list (scan (JObj assistant_node)) ''hi''"
  using scan_collects_reachable_strings
          [of "JObj assistant_node" typed_node "''hi''" assistant_node "''hi''"]
  by (simp add: typed_node_def assistant_node_def skipped_key_def)

text \<open>
  Claim C10 as stated fails on an empty string: under the key \<open>id\<close> it is a string value
  reachable through a key that is not skipped, and \<open>scan\<close> returns on it before pushing.
\<close>

theorem scan_drops_empty_string:
  "reachable_strings (JObj [(''id'', JStr [])]) = [[]]
   \<and> scan (JObj [(''id'', JStr [])]) = []"
  by (simp add: skipped_key_def)

section \<open>Properties of the retry executor\<close>

lemma loop_success:
  assumes "i < attempts" and "fn i now = (d, Inr v)"
  shows "withRetries_loop fn attempts b i le now = (Inr v, [Invoke i now], now + d)"
  using assms by (subst withRetries_loop.simps) simp

lemma loop_terminal:
  assumes "i < attempts" and "fn i now = (d, Inl e)"
    and "\<not> isRetryableStatus (status_of (Some e)) \<or> i = attempts - 1"
  shows "withRetries_loop fn attempts b i le now = (Inl (Some e), [Invoke i now], now + d)"
  using assms by (subst withRetries_loop.simps) (simp del: status_of.simps)

lemma loop_retry:
  assumes "withRetries_loop fn attempts b j (Some e) now' = (r, evs, t)"
    and "i < attempts" and "fn i now = (d, Inl e)"
    and "isRetryableStatus (status_of (Some e))" and "i \<noteq> attempts - 1"
    and "j = i + 1" and "delay = b * 2 ^ i" and "now' = now + d + delay"
  shows "withRetries_loop fn attempts b i le now =
           (r, Invoke i now # Sleep (now + d) delay # evs, t)"
  using assms by (subst withRetries_loop.simps) (simp del: status_of.simps)

lemma loop_exhausted:
  assumes "\<not> i < attempts"
  shows "withRetries_loop fn attempts b i le now = (Inl le, [], now)"
  using assms by (subst withRetries_loop.simps) simp

lemma loop_head:
  "i < attempts \<Longrightarrow> \<exists>rest. fst (snd (withRetries_loop fn attempts b i le now)) = Invoke i now # rest"
  by (subst withRetries_loop.simps)
    (auto split: prod.splits sum.splits simp: Let_def simp del: status_of.simps)

text \<open>
  Claim C6. An operation that fails with status 429 on its first and second invocation and
  succeeds on its third: \<open>withRetries(op, 3, 500)\<close> returns the success value after exactly
  3 invocations, having slept 500 ms before the second and 1000 ms before the third, so that
  the third starts 1500 ms plus the duration of the two failed calls after the start.
\<close>

theorem withRetries_two_429_then_success:
  assumes "fn 0 0 = (d0, Inl e0)" and "status_of (Some e0) = Some 429"
    and "fn 1 (d0 + 500) = (d1, Inl e1)" and "status_of (Some e1) = Some 429"
    and "fn 2 (d0 + 500 + d1 + 1000) = (d2, Inr v)"
  shows "withRetries fn 3 500 =
           (Inr v,
            [Invoke 0 0, Sleep d0 500, Invoke 1 (d0 + 500),
             Sleep (d0 + 500 + d1) 1000, Invoke 2 (d0 + 500 + d1 + 1000)],
            d0 + 500 + d1 + 1000 + d2)
         \<and> invocations (fst (snd (withRetries fn 3 500))) = 3
         \<and> sleeps (fst (snd (withRetries fn 3 500))) = [500, 1000]"
proof -
  have r0: "isRetryableStatus (status_of (Some e0))" and r1: "isRetryableStatus (status_of (Some e1))"
    using assms(2,4) by (simp_all add: isRetryableStatus_def del: status_of.simps)
  have third: "withRetries_loop fn 3 500 2 (Some e1) (d0 + 500 + d1 + 1000) =
      (Inr v, [Invoke 2 (d0 + 500 + d1 + 1000)], d0 + 500 + d1 + 1000 + d2)"
    by (rule loop_success [where fn = fn and i = 2 and now = "d0 + 500 + d1 + 1000", OF _ assms(5)])
      simp
  have second: "withRetries_loop fn 3 500 1 (Some e0) (d0 + 500) =
      (Inr v, [Invoke 1 (d0 + 500), Sleep (d0 + 500 + d1) 1000, Invoke 2 (d0 + 500 + d1 + 1000)],
       d0 + 500 + d1 + 1000 + d2)"
    by (rule loop_retry [where fn = fn and i = 1 and now = "d0 + 500", OF third _ assms(3) r1])
      simp_all
  have "withRetries_loop fn 3 500 0 None 0 =
      (Inr v, [Invoke 0 0, Sleep (0 + d0) 500, Invoke 1 (d0 + 500),
               Sleep (d0 + 500 + d1) 1000, Invoke 2 (d0 + 500 + d1 + 1000)],
       d0 + 500 + d1 + 1000 + d2)"
    by (rule loop_retry [where fn = fn and i = 0 and now = 0, OF second _ assms(1) r0]) simp_all
  then show ?thesis by (simp add: withRetries_def)
qed

theorem withRetries_two_429_then_success_witness:
  "withRetries (\<lambda>i t. if i < 2 then (40, Inl (err_with_status (Some 429))) else (25, Inr ''ok'')) 3 500 =
     (Inr ''ok'', [Invoke 0 0, Sleep 40 500, Invoke 1 540, Sleep 580 1000, Invoke 2 1580], 1605)"
  using withRetries_two_429_then_success
    [of "\<lambda>i t. if i < 2 then (40, Inl (err_with_status (Some 429))) else (25, Inr ''ok'')"
        40 "err_with_status (Some 429)" 40 "err_with_status (Some 429)" 25 "''ok''"]
  by (simp add: err_with_status_def)

text \<open>
  Claim C7. When the first failure of the operation carries a status outside the retryable
  class (not 429 and not in the range from 500 up to 600, or no status at all),
  \<open>withRetries\<close> throws that failure after exactly 1 invocation and without any sleep.
\<close>

theorem withRetries_non_retryable:
  assumes "0 < attempts" and "fn 0 0 = (d, Inl e)"
    and "case status_of (Some e) of None \<Rightarrow> True | Some s \<Rightarrow> s \<noteq> 429 \<and> \<not> (500 \<le> s \<and> s < 600)"
  shows "withRetries fn attempts baseDelay = (Inl (Some e), [Invoke 0 0], d)
         \<and> invocations (fst (snd (withRetries fn attempts baseDelay))) = 1
         \<and> sleeps (fst (snd (withRetries fn attempts baseDelay))) = []"
proof -
  have "\<not> isRetryableStatus (status_of (Some e))"
    using assms(3) by (cases "status_of (Some e)") (auto simp: isRetryableStatus_def)
  then have "withRetries fn attempts baseDelay = (Inl (Some e), [Invoke 0 0], d)"
    unfolding withRetries_def
    using loop_terminal [of 0 attempts fn 0 d e baseDelay None] assms(1,2) by simp
  then show ?thesis by simp
qed

theorem withRetries_non_retryable_witness:
  "withRetries (\<lambda>i t. (30, Inl (err_with_status (Some 400)) :: error + string)) 3 500 =
     (Inl (Some (err_with_status (Some 400))), [Invoke 0 0], 30)
   \<and> withRetries (\<lambda>i t. (30, Inl (err_with_status None) :: error + string)) 3 500 =
     (Inl (Some (err_with_status None)), [Invoke 0 0], 30)"
  using withRetries_non_retryable
    [of 3 "\<lambda>i t. (30, Inl (err_with_status (Some 400)) :: error + string)" 30 "err_with_status (Some 400)" 500]
    withRetries_non_retryable
    [of 3 "\<lambda>i t. (30, Inl (err_with_status None) :: error + string)" 30 "err_with_status None" 500]
  by (simp add: err_with_status_def)

lemma loop_backoff_shape:
  "backoff_shape b (fst (snd (withRetries_loop fn attempts b i le now)))"
proof (induction fn attempts b i le now rule: withRetries_loop.induct)
  case (1 fn attempts b i le now)
  show ?case
  proof (cases "i < attempts")
    case False
    then show ?thesis by (simp add: loop_exhausted)
  next
    case True
    obtain d out where fn: "fn i now = (d, out)" by (cases "fn i now")
    show ?thesis
    proof (cases out)
      case (Inr v)
      then show ?thesis using True fn by (simp add: loop_success)
    next
      case (Inl e)
      show ?thesis
      proof (cases "\<not> isRetryableStatus (status_of (Some e)) \<or> i = attempts - 1")
        case stop: True
        then show ?thesis using True fn Inl loop_terminal [of i attempts fn now d e b le] by simp
      next
        case go: False
        obtain r evs t where rec: "withRetries_loop fn attempts b (i + 1) (Some e) (now + d + b * 2 ^ i) = (r, evs, t)"
          by (cases "withRetries_loop fn attempts b (i + 1) (Some e) (now + d + b * 2 ^ i)")
        have here: "withRetries_loop fn attempts b i le now =
           (r, Invoke i now # Sleep (now + d) (b * 2 ^ i) # evs, t)"
          using loop_retry [OF rec True] fn Inl go by simp
        from go have "i \<noteq> attempts - 1" by blast
        with True have "i + 1 < attempts" by arith
        from loop_head [OF this, of fn b "Some e" "now + d + b * 2 ^ i"] rec
        obtain rest where evs: "evs = Invoke (i + 1) (now + d + b * 2 ^ i) # rest" by auto
        have "backoff_shape b evs"
          using "1.IH" [OF True fn [symmetric] Inl _ refl] go rec by simp
        then show ?thesis using here evs by simp
      qed
    qed
  qed
qed

lemma loop_invocations_after:
  assumes "fails_once_fired fire fn"
  shows "invocations_after fire (fst (snd (withRetries_loop fn attempts b i le now))) \<le> 1"
  using assms
proof (induction fn attempts b i le now rule: withRetries_loop.induct)
  case (1 fn attempts b i le now)
  show ?case
  proof (cases "i < attempts")
    case False
    then show ?thesis by (simp add: loop_exhausted)
  next
    case True
    obtain d out where fn: "fn i now = (d, out)" by (cases "fn i now")
    show ?thesis
    proof (cases out)
      case (Inr v)
      then show ?thesis using True fn by (simp add: loop_success)
    next
      case (Inl e)
      show ?thesis
      proof (cases "\<not> isRetryableStatus (status_of (Some e)) \<or> i = attempts - 1")
        case stop: True
        then show ?thesis using True fn Inl loop_terminal [of i attempts fn now d e b le] by simp
      next
        case go: False
        obtain r evs t where rec: "withRetries_loop fn attempts b (i + 1) (Some e) (now + d + b * 2 ^ i) = (r, evs, t)"
          by (cases "withRetries_loop fn attempts b (i + 1) (Some e) (now + d + b * 2 ^ i)")
        have here: "withRetries_loop fn attempts b i le now =
           (r, Invoke i now # Sleep (now + d) (b * 2 ^ i) # evs, t)"
          using loop_retry [OF rec True] fn Inl go by simp
        have "\<not> fire \<le> now + d"
          using "1.prems" fn Inl go unfolding fails_once_fired_def
          by (metis fst_conv snd_conv sum.simps(5))
        then have "\<not> fire < now" by simp
        moreover have "invocations_after fire evs \<le> 1"
          using "1.IH" [OF True fn [symmetric] Inl _ refl "1.prems"] go rec by simp
        ultimately show ?thesis using here by simp
      qed
    qed
  qed
qed

lemma aborting_op_fails_once_fired: "fails_once_fired fire (aborting_op fire)"
  by (simp add: fails_once_fired_def aborting_op_def abort_error_def isRetryableStatus_def)

lemma aborting_run:
  "withRetries (aborting_op 300) 3 500 =
     (Inl (Some abort_error), [Invoke 0 0, Sleep 100 500, Invoke 1 600], 600)"
  by code_simp

text \<open>
  Claim C3, as the code has it. \<open>withRetries\<close> has no access to the cancellation token:
  whatever the token does, every backoff sleep lasts its full \<open>baseDelay * 2 ^ i\<close>
  milliseconds and is followed by the next invocation of the operation. The token reaches
  the loop only through the operation: when every invocation that settles at or after the
  firing is rejected with an error that is not retryable, at most one invocation starts
  after the token has fired.
\<close>

theorem withRetries_token_blind:
  "backoff_shape baseDelay (fst (snd (withRetries fn attempts baseDelay)))
   \<and> (fails_once_fired fire fn \<longrightarrow>
        invocations_after fire (fst (snd (withRetries fn attempts baseDelay))) \<le> 1)"
  unfolding withRetries_def using loop_backoff_shape loop_invocations_after by blast

theorem withRetries_token_blind_witness:
  "fails_once_fired 300 (aborting_op 300)
   \<and> backoff_shape 500 [Invoke 0 0, Sleep 100 500, Invoke 1 600]
   \<and> invocations_after 300 [Invoke 0 0, Sleep 100 500, Invoke 1 600] \<le> 1"
  using withRetries_token_blind [of 500 "aborting_op 300" 3 300] aborting_op_fails_once_fired [of 300]
  by (simp add: aborting_run)

text \<open>
  Claim C3 as stated fails: with a token that fires at 300 ms, during the sleep from 100 ms
  to 600 ms that follows a first failure with status 429, the executor does not stop at
  300 ms; the sleep runs to 600 ms and the operation is invoked once more, after the firing.
\<close>

theorem withRetries_sleep_not_cancelled:
  "withRetries (aborting_op 300) 3 500 =
     (Inl (Some abort_error), [Invoke 0 0, Sleep 100 500, Invoke 1 600], 600)
   \<and> fires_during_sleep 300 [Invoke 0 0, Sleep 100 500, Invoke 1 600]
   \<and> invocations_after 300 [Invoke 0 0, Sleep 100 500, Invoke 1 600] = 1"
  by (simp add: aborting_run)

section \<open>Properties of the request handler\<close>

lemma outbound_append: "outbound (xs @ ys) = outbound xs @ outbound ys"
  by (induction xs rule: outbound.induct) simp_all

lemma outbound_lift_retry:
  "outbound (map (lift_retry req) revs) = replicate (invocations revs) req"
  by (induction revs rule: invocations.induct) simp_all

lemma outbound_on_catch: "outbound (snd (on_catch err)) = []"
  by (simp add: on_catch_def Let_def)

lemma outbound_tryClientSampling: "outbound (snd (tryClientSampling c p)) = []"
  by (simp add: tryClientSampling_def Let_def split: option.splits sum.splits)

lemma outbound_provider_try:
  "\<exists>n. outbound (snd (provider_try cl m sy us smt tp)) = replicate n (build_req m sy us smt tp)"
proof -
  obtain r revs ms where run: "withRetries (cl (build_req m sy us smt tp)) 3 500 = (r, revs, ms)"
    by (cases "withRetries (cl (build_req m sy us smt tp)) 3 500")
  have "outbound (snd (provider_try cl m sy us smt tp))
        = replicate (invocations revs) (build_req m sy us smt tp)"
    by (simp add: provider_try_def Let_def run outbound_append outbound_lift_retry
        outbound_on_catch split_beta split: sum.splits)
  then show ?thesis ..
qed

lemma outbound_provider_path:
  "\<exists>n. outbound (snd (provider_path cfg c cl a)) = replicate n (request_of cfg a)"
proof (cases "falsy (apiKey cfg)")
  case True
  then have "outbound (snd (provider_path cfg c cl a)) = replicate 0 (request_of cfg a)"
    by (simp add: provider_path_def Let_def outbound_append)
  then show ?thesis ..
next
  case False
  obtain n where "outbound (snd (provider_try cl (arg_model cfg a) (system_prompt (arg_sections a))
       (user_prompt (question a) (context_arg a)) (safeMaxTokens cfg a) (temperature a)))
     = replicate n (request_of cfg a)"
    using outbound_provider_try unfolding request_of_def by blast
  then have "outbound (snd (provider_path cfg c cl a)) = replicate n (request_of cfg a)"
    using False by (simp add: provider_path_def Let_def outbound_append split_beta)
  then show ?thesis ..
qed

lemma outbound_handler:
  "\<exists>n. outbound (snd (handler cfg c cl a)) = replicate n (request_of cfg a)"
proof -
  obtain n where n: "outbound (snd (provider_path cfg c cl a)) = replicate n (request_of cfg a)"
    using outbound_provider_path by blast
  have "outbound (snd (handler cfg c cl a)) = replicate n (request_of cfg a)
        \<or> outbound (snd (handler cfg c cl a)) = replicate 0 (request_of cfg a)"
    using n outbound_tryClientSampling [of c "sampling_args cfg a"]
    by (simp add: handler_def Let_def outbound_append split_beta)
  then show ?thesis by blast
qed

lemma key_set_no_throw: "OPENAI_API_KEY cfg \<noteq> None \<Longrightarrow> \<not> getOpenAI_throws (apiKey cfg)"
  by (simp add: getOpenAI_throws_def apiKey_def)

lemma key_unset_throws: "OPENAI_API_KEY cfg = None \<Longrightarrow> getOpenAI_throws (apiKey cfg)"
  by (simp add: getOpenAI_throws_def apiKey_def)

lemma outbound_handler_mem:
  "r \<in> set (outbound (snd (handler cfg c cl a))) \<Longrightarrow> r = request_of cfg a"
  using outbound_handler [of cfg c cl a] by auto

lemma sample_facts:
  "askSchema_ok sample_args" "isReasoningModel (arg_model sample_config sample_args)"
  "\<not> isReasoningModel (arg_model sample_config (sample_args\<lparr>model := Some ''gpt-4o''\<rparr>))"
  "temperature sample_args = Some 0.3"
  by (simp_all add: askSchema_ok_def sample_args_def sample_config_def isReasoningModel_def
      arg_model_def)

lemma sample_mem_o3:
  "request_of sample_config sample_args
     \<in> set (outbound (snd (handler sample_config bare_ctx hello_client sample_args)))"
  by code_simp

lemma sample_mem_gpt:
  "request_of sample_config (sample_args\<lparr>model := Some ''gpt-4o''\<rparr>)
     \<in> set (outbound (snd (handler sample_config bare_ctx hello_client
                               (sample_args\<lparr>model := Some ''gpt-4o''\<rparr>))))"
  by code_simp

text \<open>
  Claim C9. No request sent to the provider has both a temperature and a reasoning effort.
  For a reasoning-class model the request has a reasoning effort and no temperature, also
  when the caller gave one; for any other model it has the caller's temperature exactly when
  the caller gave one, and no reasoning effort.
\<close>

theorem outbound_temperature_xor_reasoning:
  "\<forall>r \<in> set (outbound (snd (handler cfg c cl a))).
      r_model r = arg_model cfg a
    \<and> \<not> (r_reasoning_effort r \<noteq> None \<and> r_temperature r \<noteq> None)
    \<and> (isReasoningModel (arg_model cfg a)
         \<longrightarrow> r_reasoning_effort r \<noteq> None \<and> r_temperature r = None)
    \<and> (\<not> isReasoningModel (arg_model cfg a)
         \<longrightarrow> r_reasoning_effort r = None \<and> r_temperature r = temperature a)"
proof
  fix r assume "r \<in> set (outbound (snd (handler cfg c cl a)))"
  then have "r = request_of cfg a" by (rule outbound_handler_mem)
  then show "r_model r = arg_model cfg a
    \<and> \<not> (r_reasoning_effort r \<noteq> None \<and> r_temperature r \<noteq> None)
    \<and> (isReasoningModel (arg_model cfg a)
         \<longrightarrow> r_reasoning_effort r \<noteq> None \<and> r_temperature r = None)
    \<and> (\<not> isReasoningModel (arg_model cfg a)
         \<longrightarrow> r_reasoning_effort r = None \<and> r_temperature r = temperature a)"
    by (simp add: request_of_def build_req_def)
qed

theorem outbound_temperature_xor_reasoning_witness:
  "request_of sample_config sample_args
     \<in> set (outbound (snd (handler sample_config bare_ctx hello_client sample_args)))
   \<and> isReasoningModel (arg_model sample_config sample_args)
   \<and> temperature sample_args = Some 0.3
   \<and> r_reasoning_effort (request_of sample_config sample_args) = Some ''medium''
   \<and> r_temperature (request_of sample_config sample_args) = None
   \<and> request_of sample_config (sample_args\<lparr>model := Some ''gpt-4o''\<rparr>)
     \<in> set (outbound (snd (handler sample_config bare_ctx hello_client
                               (sample_args\<lparr>model := Some ''gpt-4o''\<rparr>))))
   \<and> r_reasoning_effort (request_of sample_config (sample_args\<lparr>model := Some ''gpt-4o''\<rparr>)) = None
   \<and> r_temperature (request_of sample_config (sample_args\<lparr>model := Some ''gpt-4o''\<rparr>)) = Some 0.3"
  using outbound_temperature_xor_reasoning [of sample_config bare_ctx hello_client sample_args,
          THEN bspec, OF sample_mem_o3]
    outbound_temperature_xor_reasoning [of sample_config bare_ctx hello_client
          "sample_args\<lparr>model := Some ''gpt-4o''\<rparr>", THEN bspec, OF sample_mem_gpt]
    sample_mem_o3 sample_mem_gpt sample_facts
  by (simp add: request_of_def build_req_def sample_args_def)

text \<open>
  Claim C5, as the code has it. For every validated request, each request sent to the
  provider carries \<open>min (max 1 maxOutputTokens) tokenCap\<close> tokens, with 1024 for an absent
  \<open>maxOutputTokens\<close>; a request for 100000 tokens under a cap of 4096 carries 4096. A
  request with \<open>maxOutputTokens = 0\<close> does not pass validation: the handler throws the
  validation error and sends nothing.
\<close>

theorem outbound_tokens_clamped:
  "(askSchema_ok a \<longrightarrow>
      (\<forall>r \<in> set (outbound (snd (handler cfg c cl a))).
         r_max_output_tokens r
           = min (max 1 (case maxOutputTokens a of None \<Rightarrow> 1024 | Some n \<Rightarrow> n)) (MAX_TOKENS_CAP cfg)))
   \<and> (maxOutputTokens a = Some 100000 \<and> MAX_TOKENS_CAP cfg = 4096 \<longrightarrow>
      (\<forall>r \<in> set (outbound (snd (handler cfg c cl a))). r_max_output_tokens r = 4096))
   \<and> (maxOutputTokens a = Some 0 \<longrightarrow> handler cfg c cl a = (ThrewZodError, []))"
proof -
  have tokens: "r_max_output_tokens r
      = min (max 1 (case maxOutputTokens a of None \<Rightarrow> 1024 | Some n \<Rightarrow> n)) (MAX_TOKENS_CAP cfg)"
    if "r \<in> set (outbound (snd (handler cfg c cl a)))" for r
    using outbound_handler_mem [OF that]
    by (simp add: request_of_def build_req_def safeMaxTokens_def arg_maxOutputTokens_def
        DEFAULT_MAX_TOKENS_def split: option.splits)
  have rejected: "handler cfg c cl a = (ThrewZodError, [])" if "maxOutputTokens a = Some 0"
    using that by (simp add: handler_def askSchema_ok_def)
  from tokens rejected show ?thesis by auto
qed

theorem outbound_tokens_clamped_witness:
  "askSchema_ok sample_args
   \<and> maxOutputTokens sample_args = Some 100000 \<and> MAX_TOKENS_CAP sample_config = 4096
   \<and> request_of sample_config sample_args
        \<in> set (outbound (snd (handler sample_config bare_ctx hello_client sample_args)))
   \<and> r_max_output_tokens (request_of sample_config sample_args) = 4096
   \<and> handler sample_config bare_ctx hello_client (sample_args\<lparr>maxOutputTokens := Some 0\<rparr>)
       = (ThrewZodError, [])"
  using outbound_tokens_clamped [of sample_args sample_config bare_ctx hello_client]
    outbound_tokens_clamped [of "sample_args\<lparr>maxOutputTokens := Some 0\<rparr>" sample_config bare_ctx hello_client]
    sample_mem_o3 sample_facts(1)
  by (simp add: sample_args_def sample_config_def)

text \<open>
  Claim C5 as stated fails at \<open>maxOutputTokens = 0\<close>: that request is rejected by the
  schema, which requires a positive integer, and no request carrying 1 token is sent.
\<close>

theorem zero_tokens_rejected:
  "fst (handler sample_config bare_ctx hello_client (sample_args\<lparr>maxOutputTokens := Some 0\<rparr>))
     = ThrewZodError
   \<and> outbound (snd (handler sample_config bare_ctx hello_client
                        (sample_args\<lparr>maxOutputTokens := Some 0\<rparr>))) = []"
  by (simp add: handler_def askSchema_ok_def sample_args_def)

text \<open>
  With a key set, a valid request under sampling mode \<open>always\<close> whose caller context has
  none of the probed \<open>createMessage\<close> entry points gets the error
  \<open>E_CLIENT_SAMPLING_UNAVAILABLE\<close>, and nothing is sent to the provider.
\<close>

lemma always_mode_without_capability_key_set:
  assumes "askSchema_ok a" and "SAMPLING_MODE cfg = ''always''"
    and "sampling_createMessage c = None" and "session_createMessage c = None"
    and "createMessage c = None" and "OPENAI_API_KEY cfg \<noteq> None"
  shows "handler cfg c cl a =
           (Returned (mcpErr ''Client sampling requested but not available''
                        ''E_CLIENT_SAMPLING_UNAVAILABLE''),
            [SendInfo (''Starting oracle request (model='' @ arg_model cfg a @ '')''),
             ReportProgress 0,
             SendInfo ''Error: Client sampling requested but not available'',
             ReportProgress 100])
         \<and> outbound (snd (handler cfg c cl a)) = []"
  using assms key_set_no_throw [of cfg]
  by (simp add: handler_def tryClientSampling_def falsy_def Let_def)

lemma always_mode_without_capability_sample:
  "handler (sample_config\<lparr>SAMPLING_MODE := ''always''\<rparr>) bare_ctx hello_client sample_args =
     (Returned \<lparr>isError = True,
       content_text = ''E_CLIENT_SAMPLING_UNAVAILABLE: Client sampling requested but not available''\<rparr>,
      [SendInfo ''Starting oracle request (model=o3)'', ReportProgress 0,
       SendInfo ''Error: Client sampling requested but not available'', ReportProgress 100])"
  by code_simp

text \<open>
  Claim C8. The claim asks that every valid request under sampling mode \<open>always\<close>, when the
  caller context has no generation capability, gets exactly the error
  \<open>E_CLIENT_SAMPLING_UNAVAILABLE\<close>. With \<open>OPENAI_API_KEY\<close> unset, the setup that mode
  \<open>always\<close> is documented for, the code fetches the provider client first: the constructor
  throws, the handler ends with that exception after the two start events, and
  \<open>tryClientSampling\<close> is never called. Nothing is sent to the provider.
\<close>

theorem always_mode_unset_key_throws:
  "handler (sample_config\<lparr>SAMPLING_MODE := ''always'', OPENAI_API_KEY := None\<rparr>)
       bare_ctx hello_client sample_args =
     (ThrewOpenAIError,
      [SendInfo ''Starting oracle request (model=o3)'', ReportProgress 0])
   \<and> askSchema_ok sample_args
   \<and> sampling_createMessage bare_ctx = None \<and> session_createMessage bare_ctx = None
   \<and> createMessage bare_ctx = None"
  by code_simp

lemma sample_reaches:
  "reaches_provider_path (sample_config\<lparr>OPENAI_API_KEY := Some ''  ''\<rparr>) bare_ctx sample_args"
  by code_simp

text \<open>
  With a key that is set and blank (empty once trimmed), a valid request whose control
  reaches the provider path, in any sampling mode, gets the structured error
  \<open>E_MISSING_OPENAI_KEY\<close> (the error flag is set and the message names the missing key),
  and nothing is sent to the provider.
\<close>

lemma blank_key_structured_error:
  assumes "askSchema_ok a" and "reaches_provider_path cfg c a"
    and "case OPENAI_API_KEY cfg of None \<Rightarrow> False | Some k \<Rightarrow> trim k = []"
  shows "fst (handler cfg c cl a) =
           Returned \<lparr>isError = True,
             content_text = ''E_MISSING_OPENAI_KEY: Missing OPENAI_API_KEY in environment (required for server-side generation)''\<rparr>
         \<and> outbound (snd (handler cfg c cl a)) = []"
proof -
  have key: "falsy (apiKey cfg)"
    using assms(3) by (simp add: falsy_def apiKey_def split: option.splits)
  have set: "\<not> getOpenAI_throws (apiKey cfg)"
    using assms(2) by (simp add: reaches_provider_path_def key_set_no_throw)
  have path: "provider_path cfg c cl a =
      (Returned (mcpErr ''Missing OPENAI_API_KEY in environment (required for server-side generation)''
                  ''E_MISSING_OPENAI_KEY''),
       (if signal c then [AddAbortListener] else []) @ [SetTimeout (arg_timeoutMs a)]
       @ [SendInfo ''Error: Missing OPENAI_API_KEY in environment (required for server-side generation)'',
          ReportProgress 100])"
    using key by (simp add: provider_path_def Let_def)
  show ?thesis
  proof (cases "SAMPLING_MODE cfg = ''off''")
    case True
    then show ?thesis
      using assms(1) path set by (simp add: handler_def mcpErr_def outbound_append Let_def)
  next
    case False
    with assms(2) have "SAMPLING_MODE cfg \<noteq> ''always''"
      and "falsy (fst (tryClientSampling c (sampling_args cfg a)))"
      by (simp_all add: reaches_provider_path_def)
    then show ?thesis
      using assms(1) False path set outbound_tryClientSampling [of c "sampling_args cfg a"]
      by (simp add: handler_def mcpErr_def outbound_append split_beta Let_def)
  qed
qed

lemma blank_key_structured_error_sample:
  "askSchema_ok sample_args
   \<and> reaches_provider_path (sample_config\<lparr>OPENAI_API_KEY := Some ''  ''\<rparr>) bare_ctx sample_args
   \<and> trim ''  '' = []
   \<and> fst (handler (sample_config\<lparr>OPENAI_API_KEY := Some ''  ''\<rparr>) bare_ctx hello_client sample_args) =
       Returned \<lparr>isError = True,
         content_text = ''E_MISSING_OPENAI_KEY: Missing OPENAI_API_KEY in environment (required for server-side generation)''\<rparr>
   \<and> outbound (snd (handler (sample_config\<lparr>OPENAI_API_KEY := Some ''  ''\<rparr>) bare_ctx hello_client sample_args)) = []"
  using blank_key_structured_error
    [of sample_args "sample_config\<lparr>OPENAI_API_KEY := Some ''  ''\<rparr>" bare_ctx hello_client]
    sample_facts(1) sample_reaches
  by (simp add: sample_config_def trim_def is_js_whitespace_def)

text \<open>
  Claim C4. The claim asks that a request which needs the provider path while no credential
  is configured, the key absent or empty once trimmed, gets the structured missing-key
  error and that no exception leaves the handler. For the blank key the code does so (the
  lemma above). With the key absent it does not: for a valid request under mode \<open>off\<close> and
  \<open>OPENAI_API_KEY\<close> unset, the client is fetched before the check \<open>if (!apiKey)\<close>, the
  constructor throws, and the handler ends with that exception after the two start events;
  the message \<open>E_MISSING_OPENAI_KEY\<close> is never produced. The same holds under mode \<open>auto\<close>.
  Nothing is sent to the provider.
\<close>

theorem unset_key_throws_before_check:
  "handler (sample_config\<lparr>SAMPLING_MODE := ''off'', OPENAI_API_KEY := None\<rparr>)
       bare_ctx hello_client sample_args =
     (ThrewOpenAIError,
      [SendInfo ''Starting oracle request (model=o3)'', ReportProgress 0])
   \<and> handler (sample_config\<lparr>OPENAI_API_KEY := None\<rparr>) bare_ctx hello_client sample_args =
     (ThrewOpenAIError,
      [SendInfo ''Starting oracle request (model=o3)'', ReportProgress 0])
   \<and> askSchema_ok sample_args"
  by code_simp

text \<open>
  For every valid request with the key unset, in every mode, the handler ends with the
  exception of the constructor.
\<close>

lemma unset_key_always_throws:
  assumes "askSchema_ok a" and "OPENAI_API_KEY cfg = None"
  shows "fst (handler cfg c cl a) = ThrewOpenAIError"
  using assms key_unset_throws [of cfg] by (simp add: handler_def Let_def)

lemma timer_pending_append: "timer_pending (xs @ ys) p = timer_pending ys (timer_pending xs p)"
  by (induction xs p rule: timer_pending.induct) simp_all

lemma listener_registered_append:
  "listener_registered (xs @ ys) p = listener_registered ys (listener_registered xs p)"
  by (induction xs p rule: listener_registered.induct) simp_all

lemma listener_lift_retry: "listener_registered (map (lift_retry req) revs) p = p"
  by (induction revs rule: invocations.induct) simp_all

lemma listener_on_catch: "listener_registered (snd (on_catch err)) p = p"
  by (simp add: on_catch_def Let_def)

lemma listener_provider_try: "listener_registered (snd (provider_try cl m sy us smt tp)) p = p"
proof -
  obtain r revs ms where run: "withRetries (cl (build_req m sy us smt tp)) 3 500 = (r, revs, ms)"
    by (cases "withRetries (cl (build_req m sy us smt tp)) 3 500")
  show ?thesis
    by (simp add: provider_try_def Let_def run listener_registered_append listener_lift_retry
        listener_on_catch split_beta split: sum.splits)
qed

lemma listener_tryClientSampling: "listener_registered (snd (tryClientSampling c params)) p = p"
  by (simp add: tryClientSampling_def Let_def split: option.splits sum.splits)

lemma timer_tryClientSampling: "timer_pending (snd (tryClientSampling c params)) p = p"
  by (simp add: tryClientSampling_def Let_def split: option.splits sum.splits)

lemma provider_path_cleanup_with_key:
  assumes "\<not> falsy (apiKey cfg)"
  shows "\<not> timer_pending (snd (provider_path cfg c cl a)) p
         \<and> \<not> listener_registered (snd (provider_path cfg c cl a)) False"
  using assms
  by (simp add: provider_path_def Let_def split_beta timer_pending_append
      listener_registered_append listener_provider_try)

text \<open>
  With a credential configured, every exit of the handler (success, empty output, provider
  error, and the exits that never enter the provider path) leaves no timer armed and no
  abort listener registered: the \<open>finally\<close> block has run. With the key unset no timer is
  armed and no listener registered at all.
\<close>

lemma handler_cleanup_with_key:
  assumes "\<not> falsy (apiKey cfg)"
  shows "\<not> timer_pending (snd (handler cfg c cl a)) False
         \<and> \<not> listener_registered (snd (handler cfg c cl a)) False"
  using provider_path_cleanup_with_key [OF assms, of c cl a]
  by (simp add: handler_def Let_def split_beta timer_pending_append listener_registered_append
      listener_tryClientSampling timer_tryClientSampling)

lemma handler_nothing_armed_key_unset:
  assumes "OPENAI_API_KEY cfg = None"
  shows "\<not> timer_pending (snd (handler cfg c cl a)) False
         \<and> \<not> listener_registered (snd (handler cfg c cl a)) False"
  using key_unset_throws [OF assms] by (simp add: handler_def Let_def)

text \<open>
  Claim C2. The claim asks that the timer is cleared and the abort listener removed on every
  exit of a request that entered the provider path. On the missing-credential exit the code
  returns before the \<open>try\<close> whose \<open>finally\<close> does the cleanup. That exit is taken when the
  key is set and blank: with \<open>OPENAI_API_KEY\<close> set to the empty string (and likewise to two
  spaces), mode \<open>off\<close> and a context that has a signal, the handler returns the missing-key
  error while the timer is still armed and the listener still registered.
\<close>

theorem missing_key_exit_leaks:
  "handler (sample_config\<lparr>SAMPLING_MODE := ''off'', OPENAI_API_KEY := Some []\<rparr>) bare_ctx hello_client sample_args =
     (Returned \<lparr>isError = True,
         content_text = ''E_MISSING_OPENAI_KEY: Missing OPENAI_API_KEY in environment (required for server-side generation)''\<rparr>,
      [SendInfo ''Starting oracle request (model=o3)'', ReportProgress 0,
       AddAbortListener, SetTimeout 120000,
       SendInfo ''Error: Missing OPENAI_API_KEY in environment (required for server-side generation)'',
       ReportProgress 100])
   \<and> timer_pending (snd (handler (sample_config\<lparr>SAMPLING_MODE := ''off'', OPENAI_API_KEY := Some []\<rparr>)
                           bare_ctx hello_client sample_args)) False
   \<and> listener_registered (snd (handler (sample_config\<lparr>SAMPLING_MODE := ''off'', OPENAI_API_KEY := Some []\<rparr>)
                           bare_ctx hello_client sample_args)) False
   \<and> timer_pending (snd (handler (sample_config\<lparr>SAMPLING_MODE := ''off'', OPENAI_API_KEY := Some ''  ''\<rparr>)
                           bare_ctx hello_client sample_args)) False
   \<and> listener_registered (snd (handler (sample_config\<lparr>SAMPLING_MODE := ''off'', OPENAI_API_KEY := Some ''  ''\<rparr>)
                           bare_ctx hello_client sample_args)) False"
  by code_simp

end
